theory Spec2Isabelle
  imports Main "HOL-Library.Char_ord" "HOL-Library.List_Lexorder"
begin

section \<open>Strings\<close>

text \<open>
  A Python \<open>str\<close> is modelled as a \<^typ>\<open>string\<close> whose characters are the code
  points below 256. The functions of this section are the \<open>str\<close> methods that
  \<open>command_handler.py\<close> calls.
\<close>

definition isspace :: "char \<Rightarrow> bool" where
  \<comment> \<open>\<open>str.isspace\<close> on one code point below 256: TAB, LF, VT, FF, CR, FS, GS, RS, US,
      SPACE, NEL and NBSP.\<close>
  "isspace c =
     (let n = (of_char c :: nat)
      in (9 \<le> n \<and> n \<le> 13) \<or> (28 \<le> n \<and> n \<le> 32) \<or> n = 133 \<or> n = 160)"

fun split :: "string \<Rightarrow> string \<Rightarrow> string list" where
  \<comment> \<open>\<open>s.split()\<close>: the maximal runs of non-whitespace characters, in order. The first
      argument is the run being read.\<close>
  "split w [] = (if w = [] then [] else [w])"
| "split w (c # cs) =
     (if isspace c then (if w = [] then split [] cs else w # split [] cs)
      else split (w @ [c]) cs)"

definition strip :: "string \<Rightarrow> string" where
  \<comment> \<open>\<open>s.strip()\<close>\<close>
  "strip s = rev (dropWhile isspace (rev (dropWhile isspace s)))"

definition lower_char :: "char \<Rightarrow> char" where
  \<comment> \<open>\<open>str.lower\<close> on one code point below 256\<close>
  "lower_char c =
     (let n = (of_char c :: nat)
      in if (65 \<le> n \<and> n \<le> 90) \<or> (192 \<le> n \<and> n \<le> 222 \<and> n \<noteq> 215)
         then char_of (n + 32) else c)"

definition lower :: "string \<Rightarrow> string" where
  "lower s = map lower_char s"

fun join :: "string \<Rightarrow> string list \<Rightarrow> string" where
  \<comment> \<open>\<open>sep.join(xs)\<close>\<close>
  "join sep [] = []"
| "join sep [x] = x"
| "join sep (x # y # ys) = x @ sep @ join sep (y # ys)"

fun split_on :: "char \<Rightarrow> string \<Rightarrow> string list" where
  \<comment> \<open>\<open>s.split(c)\<close> with a one-character separator\<close>
  "split_on c [] = [[]]"
| "split_on c (x # xs) =
     (if x = c then [] # split_on c xs
      else (case split_on c xs of [] \<Rightarrow> [[x]] | w # ws \<Rightarrow> (x # w) # ws))"

definition startswith :: "string \<Rightarrow> string \<Rightarrow> bool" where
  "startswith s p = (take (length p) s = p)"

definition endswith :: "string \<Rightarrow> string \<Rightarrow> bool" where
  "endswith s p = (length p \<le> length s \<and> drop (length s - length p) s = p)"

fun contains :: "string \<Rightarrow> string \<Rightarrow> bool" where
  \<comment> \<open>\<open>p in s\<close> on strings\<close>
  "contains [] p = (p = [])"
| "contains (c # cs) p = (startswith (c # cs) p \<or> contains cs p)"

fun digits :: "nat \<Rightarrow> string" where
  "digits n = (if n < 10 then [char_of (48 + n)] else digits (n div 10) @ [char_of (48 + n mod 10)])"

declare digits.simps [simp del]

definition str_nat :: "nat \<Rightarrow> string" where
  \<comment> \<open>\<open>str(n)\<close> of a non-negative integer\<close>
  "str_nat n = digits n"

definition quoted :: "string \<Rightarrow> string" where
  \<comment> \<open>\<open>'{s}'\<close> in the f-strings of the handlers\<close>
  "quoted s = CHR 0x27 # s @ [CHR 0x27]"

section \<open>Results and exceptions\<close>

text \<open>Every operation returns the dictionary \<open>{"success": .., "output": .., "error": ..}\<close>.\<close>

record result =
  success :: bool
  "output" :: string
  error :: string

definition ok :: "string \<Rightarrow> result" where
  \<comment> \<open>\<open>{"success": True, "output": out, "error": ""}\<close>\<close>
  "ok out = \<lparr>success = True, output = out, error = []\<rparr>"

definition fail :: "string \<Rightarrow> result" where
  \<comment> \<open>\<open>{"success": False, "output": "", "error": err}\<close>\<close>
  "fail err = \<lparr>success = False, output = [], error = err\<rparr>"

text \<open>
  The Python exceptions that can reach an \<open>except\<close> clause of the handlers: an
  \<open>OSError\<close> with its errno, message and file name (its subclass is fixed by the
  errno), \<open>subprocess.TimeoutExpired\<close> with its command, and any other exception
  with the text \<open>str(e)\<close> gives.
\<close>

datatype exn =
  OSError nat string string
| TimeoutExpired string
| Exception string

definition EPERM :: nat where "EPERM = 1"
definition ENOENT :: nat where "ENOENT = 2"
definition EACCES :: nat where "EACCES = 13"
definition EBUSY :: nat where "EBUSY = 16"
definition ENOTDIR :: nat where "ENOTDIR = 20"
definition EISDIR :: nat where "EISDIR = 21"
definition EINVAL :: nat where "EINVAL = 22"
definition ENOTEMPTY :: nat where "ENOTEMPTY = 39"

definition strerror :: "nat \<Rightarrow> string" where
  "strerror n =
     (if n = EPERM then ''Operation not permitted''
      else if n = ENOENT then ''No such file or directory''
      else if n = EACCES then ''Permission denied''
      else if n = EBUSY then ''Device or resource busy''
      else if n = ENOTDIR then ''Not a directory''
      else if n = EISDIR then ''Is a directory''
      else if n = EINVAL then ''Invalid argument''
      else if n = ENOTEMPTY then ''Directory not empty''
      else ''Unknown error '' @ str_nat n)"

definition oserror :: "nat \<Rightarrow> string \<Rightarrow> exn" where
  \<comment> \<open>the \<open>OSError\<close> a failing system call on \<open>filename\<close> raises\<close>
  "oserror n filename = OSError n (strerror n) filename"

fun str_exn :: "exn \<Rightarrow> string" where
  \<comment> \<open>\<open>str(e)\<close>\<close>
  "str_exn (OSError n msg filename) =
     ''[Errno '' @ str_nat n @ ''] '' @ msg @ (if filename = [] then [] else '': '' @ quoted filename)"
| "str_exn (TimeoutExpired cmd) =
     ''Command '' @ quoted cmd @ '' timed out after 30 seconds''"
| "str_exn (Exception msg) = msg"

fun is_PermissionError :: "exn \<Rightarrow> bool" where
  \<comment> \<open>\<open>isinstance(e, PermissionError)\<close>\<close>
  "is_PermissionError (OSError n msg filename) = (n = EPERM \<or> n = EACCES)"
| "is_PermissionError e = False"

fun is_TimeoutExpired :: "exn \<Rightarrow> bool" where
  "is_TimeoutExpired (TimeoutExpired cmd) = True"
| "is_TimeoutExpired e = False"

section \<open>The host: file system and working directory\<close>

text \<open>
  The handlers act on the file system of a POSIX host. It is modelled as an
  association list from canonical paths (the names from the root down) to entries,
  with these assumptions: there are no symbolic links, the process may read, write
  and search every entry, system calls fail only for the reasons the shape of the
  tree gives (a missing entry, a file where a directory is needed, a directory that
  is not empty), and nothing but the calls of this process and of the commands it
  launches changes the tree. The kernel keeps the process's working directory as a
  canonical path.
\<close>

type_synonym path = "string list"

datatype entry = File string | Dir

type_synonym fs = "(path \<times> entry) list"

record state =
  current_directory :: string
  proc_cwd :: path
  filesystem :: fs

definition step :: "path \<Rightarrow> string \<Rightarrow> path" where
  \<comment> \<open>one component of a path name, from the directory \<open>q\<close>\<close>
  "step q c = (if c = [] \<or> c = ''.'' then q else if c = ''..'' then butlast q else q @ [c])"

fun walk :: "fs \<Rightarrow> path \<Rightarrow> string list \<Rightarrow> nat + path" where
  \<comment> \<open>path name resolution: every component is looked up in a directory; the result is
      the canonical path of the entry, or the errno\<close>
  "walk t q [] = (case map_of t q of None \<Rightarrow> Inl ENOENT | Some e \<Rightarrow> Inr q)"
| "walk t q (c # cs) =
     (case map_of t q of
        None \<Rightarrow> Inl ENOENT
      | Some (File b) \<Rightarrow> Inl ENOTDIR
      | Some Dir \<Rightarrow> walk t (step q c) cs)"

definition os_path_isabs :: "string \<Rightarrow> bool" where
  "os_path_isabs p = startswith p ''/''"

definition namei :: "state \<Rightarrow> string \<Rightarrow> nat + path" where
  \<comment> \<open>the entry a path name denotes: from the root when the name is absolute, from the
      working directory otherwise; the empty name denotes nothing\<close>
  "namei s p =
     (if p = [] then Inl ENOENT
      else walk (filesystem s) [] ((if os_path_isabs p then [] else proc_cwd s) @ split_on CHR ''/'' p))"

definition os_path_exists :: "state \<Rightarrow> string \<Rightarrow> bool" where
  "os_path_exists s p = (case namei s p of Inl n \<Rightarrow> False | Inr q \<Rightarrow> True)"

definition os_path_isdir :: "state \<Rightarrow> string \<Rightarrow> bool" where
  "os_path_isdir s p = (case namei s p of Inl n \<Rightarrow> False | Inr q \<Rightarrow> map_of (filesystem s) q = Some Dir)"

definition os_path_isfile :: "state \<Rightarrow> string \<Rightarrow> bool" where
  "os_path_isfile s p =
     (case namei s p of Inl n \<Rightarrow> False
      | Inr q \<Rightarrow> (case map_of (filesystem s) q of Some (File b) \<Rightarrow> True | _ \<Rightarrow> False))"

definition os_path_join :: "string \<Rightarrow> string \<Rightarrow> string" where
  \<comment> \<open>\<open>posixpath.join(a, b)\<close>\<close>
  "os_path_join a b =
     (if startswith b ''/'' then b
      else if a = [] \<or> endswith a ''/'' then a @ b
      else a @ ''/'' @ b)"

definition norm_step :: "bool \<Rightarrow> string list \<Rightarrow> string \<Rightarrow> string list" where
  \<comment> \<open>the body of the loop of \<open>posixpath.normpath\<close>\<close>
  "norm_step initial_slashes new_comps c =
     (if c = [] \<or> c = ''.'' then new_comps
      else if c \<noteq> ''..'' \<or> (\<not> initial_slashes \<and> new_comps = [])
              \<or> (new_comps \<noteq> [] \<and> last new_comps = ''..'')
           then new_comps @ [c]
      else if new_comps \<noteq> [] then butlast new_comps
      else new_comps)"

definition os_path_normpath :: "string \<Rightarrow> string" where
  \<comment> \<open>\<open>posixpath.normpath\<close>\<close>
  "os_path_normpath p =
     (if p = [] then ''.''
      else
        let initial_slashes =
              (if startswith p ''/'' then
                 (if startswith p ''//'' \<and> \<not> startswith p ''///'' then 2 else 1)
               else (0::nat));
            comps = foldl (norm_step (initial_slashes \<noteq> 0)) [] (split_on CHR ''/'' p);
            r = replicate initial_slashes CHR ''/'' @ join ''/'' comps
        in if r = [] then ''.'' else r)"

definition children :: "fs \<Rightarrow> path \<Rightarrow> string list" where
  \<comment> \<open>the names in the directory \<open>q\<close>\<close>
  "children t q = remdups (map (\<lambda>(r, e). last r) (filter (\<lambda>(r, e). r \<noteq> [] \<and> butlast r = q) t))"

definition os_getcwd :: "state \<Rightarrow> exn + string" where
  \<comment> \<open>\<open>os.getcwd()\<close>; it fails once the working directory has been removed\<close>
  "os_getcwd s =
     (if map_of (filesystem s) (proc_cwd s) = Some Dir then Inr (''/'' @ join ''/'' (proc_cwd s))
      else Inl (oserror ENOENT []))"

definition os_path_abspath :: "state \<Rightarrow> string \<Rightarrow> exn + string" where
  \<comment> \<open>\<open>posixpath.abspath\<close>\<close>
  "os_path_abspath s p =
     (if os_path_isabs p then Inr (os_path_normpath p)
      else (case os_getcwd s of
              Inl e \<Rightarrow> Inl e
            | Inr cwd \<Rightarrow> Inr (os_path_normpath (os_path_join cwd p))))"

definition os_chdir :: "state \<Rightarrow> string \<Rightarrow> exn option \<times> state" where
  "os_chdir s p =
     (case namei s p of
        Inl n \<Rightarrow> (Some (oserror n p), s)
      | Inr q \<Rightarrow>
          (if map_of (filesystem s) q = Some Dir then (None, s\<lparr>proc_cwd := q\<rparr>)
           else (Some (oserror ENOTDIR p), s)))"

definition os_listdir :: "state \<Rightarrow> string \<Rightarrow> exn + string list" where
  "os_listdir s p =
     (case namei s p of
        Inl n \<Rightarrow> Inl (oserror n p)
      | Inr q \<Rightarrow>
          (if map_of (filesystem s) q = Some Dir then Inr (children (filesystem s) q)
           else Inl (oserror ENOTDIR p)))"

definition last_component :: "string \<Rightarrow> string" where
  \<comment> \<open>the last component of a path name, trailing slashes apart\<close>
  "last_component p =
     (let cs = filter (\<lambda>c. c \<noteq> []) (split_on CHR ''/'' p) in if cs = [] then [] else last cs)"

definition os_rmdir :: "state \<Rightarrow> string \<Rightarrow> exn option \<times> state" where
  \<comment> \<open>\<open>rmdir(2)\<close>: the name must not end in \<open>.\<close> or \<open>..\<close>, and must denote an empty
      directory other than the root\<close>
  "os_rmdir s p =
     (case namei s p of
        Inl n \<Rightarrow> (Some (oserror n p), s)
      | Inr q \<Rightarrow>
          (if last_component p = ''..'' then (Some (oserror ENOTEMPTY p), s)
           else if last_component p = ''.'' then (Some (oserror EINVAL p), s)
           else if q = [] then (Some (oserror EBUSY p), s)
           else if map_of (filesystem s) q \<noteq> Some Dir then (Some (oserror ENOTDIR p), s)
           else if children (filesystem s) q \<noteq> [] then (Some (oserror ENOTEMPTY p), s)
           else (None, s\<lparr>filesystem := filter (\<lambda>(r, e). r \<noteq> q) (filesystem s)\<rparr>)))"

definition os_remove :: "state \<Rightarrow> string \<Rightarrow> exn option \<times> state" where
  \<comment> \<open>\<open>unlink(2)\<close>\<close>
  "os_remove s p =
     (case namei s p of
        Inl n \<Rightarrow> (Some (oserror n p), s)
      | Inr q \<Rightarrow>
          (if map_of (filesystem s) q = Some Dir then (Some (oserror EISDIR p), s)
           else (None, s\<lparr>filesystem := filter (\<lambda>(r, e). r \<noteq> q) (filesystem s)\<rparr>)))"

definition shutil_rmtree :: "state \<Rightarrow> string \<Rightarrow> exn option \<times> state" where
  \<comment> \<open>\<open>shutil.rmtree\<close>: everything below the directory is removed, then the directory
      itself with \<open>os.rmdir\<close>\<close>
  "shutil_rmtree s p =
     (case namei s p of
        Inl n \<Rightarrow> (Some (oserror n p), s)
      | Inr q \<Rightarrow>
          (if map_of (filesystem s) q \<noteq> Some Dir then (Some (oserror ENOTDIR p), s)
           else os_rmdir
                  (s\<lparr>filesystem := filter (\<lambda>(r, e). \<not> (length q < length r \<and> take (length q) r = q)) (filesystem s)\<rparr>)
                  p))"

definition os_path_getsize :: "nat \<Rightarrow> state \<Rightarrow> string \<Rightarrow> exn + nat" where
  \<comment> \<open>\<open>os.path.getsize\<close>; the first argument is the size the host reports for a directory\<close>
  "os_path_getsize dir_size s p =
     (case namei s p of
        Inl n \<Rightarrow> Inl (oserror n p)
      | Inr q \<Rightarrow>
          (case map_of (filesystem s) q of
             Some (File b) \<Rightarrow> Inr (length b)
           | _ \<Rightarrow> Inr dir_size))"

text \<open>
  The library calls on whose behaviour no stated property depends are parameters of the
  host: what they return, and how they change the file system.
\<close>

record completed_process =
  returncode :: int
  stdout :: string
  stderr :: string

record host =
  platform_system :: string
    \<comment> \<open>\<open>platform.system()\<close>\<close>
  expanduser :: string
    \<comment> \<open>\<open>os.path.expanduser("~")\<close>\<close>
  dir_size :: nat
  os_makedirs :: "path \<Rightarrow> fs \<Rightarrow> string \<Rightarrow> exn option \<times> fs"
    \<comment> \<open>\<open>os.makedirs(path, exist_ok=False)\<close>\<close>
  path_touch :: "path \<Rightarrow> fs \<Rightarrow> string \<Rightarrow> exn option \<times> fs"
    \<comment> \<open>\<open>Path(path).touch()\<close>\<close>
  decode :: "string \<Rightarrow> string"
    \<comment> \<open>the text of a file's bytes, read as UTF-8 with \<open>errors='ignore'\<close>\<close>
  shutil_copytree :: "path \<Rightarrow> fs \<Rightarrow> string \<Rightarrow> string \<Rightarrow> exn option \<times> fs"
  shutil_copy2 :: "path \<Rightarrow> fs \<Rightarrow> string \<Rightarrow> string \<Rightarrow> exn option \<times> fs"
  shutil_move :: "path \<Rightarrow> fs \<Rightarrow> string \<Rightarrow> string \<Rightarrow> exn option \<times> fs"
  os_walk :: "path \<Rightarrow> fs \<Rightarrow> string \<Rightarrow> (string \<times> string list \<times> string list) list"
    \<comment> \<open>the triples \<open>(root, dirs, files)\<close> of \<open>os.walk\<close>\<close>
  glob_glob :: "path \<Rightarrow> fs \<Rightarrow> string \<Rightarrow> string list"
  process_lines :: "exn + string list"
    \<comment> \<open>the formatted lines of \<open>psutil.process_iter\<close> in \<open>_show_processes\<close>\<close>
  system_info :: "exn + string"
    \<comment> \<open>the text \<open>_show_system_info\<close> builds from \<open>psutil\<close>\<close>
  getpass_getuser :: "exn + string"
  datetime_now :: "exn + string"
    \<comment> \<open>\<open>datetime.now().strftime("%Y-%m-%d %H:%M:%S")\<close>\<close>
  subprocess_run :: "string \<Rightarrow> string \<Rightarrow> path \<Rightarrow> fs \<Rightarrow> (exn + completed_process) \<times> fs"
    \<comment> \<open>\<open>subprocess.run(command_line, shell=True, capture_output=True, text=True, cwd=..,
        timeout=30)\<close>: the command line, the \<open>cwd\<close> argument, and the host before the call\<close>

definition os_open_read :: "state \<Rightarrow> string \<Rightarrow> exn + string" where
  \<comment> \<open>\<open>open(path, 'r')\<close>: the bytes of the file\<close>
  "os_open_read s p =
     (case namei s p of
        Inl n \<Rightarrow> Inl (oserror n p)
      | Inr q \<Rightarrow>
          (case map_of (filesystem s) q of
             Some (File b) \<Rightarrow> Inr b
           | _ \<Rightarrow> Inl (oserror EISDIR p)))"

fun text_lines :: "string \<Rightarrow> string \<Rightarrow> string list" where
  \<comment> \<open>the lines of a text, each with its newline; the first argument is the line being read\<close>
  "text_lines w [] = (if w = [] then [] else [w])"
| "text_lines w (c # cs) =
     (if c = CHR 0x0A then (w @ [c]) # text_lines [] cs else text_lines (w @ [c]) cs)"

section \<open>The command handler\<close>

type_synonym handler = "string list \<Rightarrow> state \<Rightarrow> (exn + result) \<times> state"

definition except_Exception :: "(exn + result) \<times> state \<Rightarrow> result \<times> state" where
  \<comment> \<open>\<open>except Exception as e: return {"success": False, "output": "", "error": str(e)}\<close>\<close>
  "except_Exception x =
     (case x of (Inr r, s) \<Rightarrow> (r, s) | (Inl e, s) \<Rightarrow> (fail (str_exn e), s))"

definition parse_command :: "string \<Rightarrow> string list" where
  "parse_command command_line = split [] (strip command_line)"

definition resolve_path :: "state \<Rightarrow> string \<Rightarrow> string" where
  "resolve_path s p = (if os_path_isabs p then p else os_path_join (current_directory s) p)"

subsection \<open>ls, pwd, cd\<close>

fun list_items :: "nat \<Rightarrow> state \<Rightarrow> string \<Rightarrow> string list \<Rightarrow> exn + string list" where
  "list_items ds s p [] = Inr []"
| "list_items ds s p (entry # rest) =
     (let full_path = os_path_join p entry in
      if os_path_isdir s full_path then
        (case list_items ds s p rest of
           Inl e \<Rightarrow> Inl e
         | Inr items \<Rightarrow> Inr ((''[DIR]  '' @ entry) # items))
      else
        (case os_path_getsize ds s full_path of
           Inl e \<Rightarrow> Inl e
         | Inr sz \<Rightarrow>
             (case list_items ds s p rest of
                Inl e \<Rightarrow> Inl e
              | Inr items \<Rightarrow> Inr ((''[FILE] '' @ entry @ '' ('' @ str_nat sz @ '' bytes)'') # items))))"

definition list_entries :: "host \<Rightarrow> state \<Rightarrow> string \<Rightarrow> exn + string list" where
  \<comment> \<open>the inner \<open>try\<close> of \<open>_list_directory\<close>\<close>
  "list_entries h s p =
     (case os_listdir s p of
        Inl e \<Rightarrow> Inl e
      | Inr entries \<Rightarrow> list_items (dir_size h) s p (sort entries))"

definition list_directory :: "host \<Rightarrow> string list \<Rightarrow> state \<Rightarrow> result \<times> state" where
  "list_directory h args s =
     except_Exception
       (let p = (case args of [] \<Rightarrow> current_directory s | a # rest \<Rightarrow> a);
            p = resolve_path s p
        in if \<not> os_path_exists s p then (Inr (fail (''Path '' @ quoted p @ '' does not exist'')), s)
           else if \<not> os_path_isdir s p then (Inr (fail (quoted p @ '' is not a directory'')), s)
           else (case list_entries h s p of
                   Inl e \<Rightarrow>
                     (if is_PermissionError e
                      then (Inr (fail (''Permission denied accessing '' @ quoted p)), s)
                      else (Inl e, s))
                 | Inr items \<Rightarrow>
                     (Inr (ok (if items \<noteq> [] then join [CHR 0x0A] items else ''Directory is empty'')), s)))"

definition print_working_directory :: "string list \<Rightarrow> state \<Rightarrow> result \<times> state" where
  "print_working_directory args s = (ok (current_directory s), s)"

definition change_directory_try :: "host \<Rightarrow> string list \<Rightarrow> state \<Rightarrow> (exn + result) \<times> state" where
  \<comment> \<open>the \<open>try\<close> block of \<open>_change_directory\<close>\<close>
  "change_directory_try h args s =
     (let target =
            (case args of
               [] \<Rightarrow> (if platform_system h = ''Windows'' then expanduser h else expanduser h)
             | a # rest \<Rightarrow> a);
          target = resolve_path s target
      in if \<not> os_path_exists s target
           then (Inr (fail (''Directory '' @ quoted target @ '' does not exist'')), s)
         else if \<not> os_path_isdir s target
           then (Inr (fail (quoted target @ '' is not a directory'')), s)
         else (case os_path_abspath s target of
                 Inl e \<Rightarrow> (Inl e, s)
               | Inr d \<Rightarrow>
                   (let s1 = s\<lparr>current_directory := d\<rparr> in
                    case os_chdir s1 (current_directory s1) of
                      (Some e, s2) \<Rightarrow> (Inl e, s2)
                    | (None, s2) \<Rightarrow>
                        (Inr (ok (''Changed directory to: '' @ current_directory s2)), s2))))"

definition change_directory :: "host \<Rightarrow> string list \<Rightarrow> state \<Rightarrow> result \<times> state" where
  "change_directory h args s =
     (case change_directory_try h args s of
        (Inr r, s') \<Rightarrow> (r, s')
      | (Inl e, s') \<Rightarrow>
          (if is_PermissionError e then (fail ''Permission denied accessing directory'', s')
           else (fail (str_exn e), s')))"

subsection \<open>mkdir, rmdir, rm, touch, cat\<close>

text \<open>
  A \<open>for\<close> loop with a \<open>return\<close> inside is a recursive function on the list that
  gives \<open>Inl e\<close> when an exception leaves the loop, \<open>Inr (Some r)\<close> when the loop
  returns \<open>r\<close>, and \<open>Inr None\<close> when it runs to its end.
\<close>

fun make_directory_loop :: "host \<Rightarrow> string list \<Rightarrow> state \<Rightarrow> (exn + result option) \<times> state" where
  "make_directory_loop h [] s = (Inr None, s)"
| "make_directory_loop h (dirname # rest) s =
     (let p = resolve_path s dirname in
      if os_path_exists s p
        then (Inr (Some (fail (''Directory '' @ quoted p @ '' already exists''))), s)
      else (case os_makedirs h (proc_cwd s) (filesystem s) p of
              (Some e, t) \<Rightarrow> (Inl e, s\<lparr>filesystem := t\<rparr>)
            | (None, t) \<Rightarrow> make_directory_loop h rest (s\<lparr>filesystem := t\<rparr>)))"

definition make_directory :: "host \<Rightarrow> string list \<Rightarrow> state \<Rightarrow> result \<times> state" where
  "make_directory h args s =
     except_Exception
       (if args = [] then (Inr (fail ''mkdir: missing directory name''), s)
        else (case make_directory_loop h args s of
                (Inl e, s') \<Rightarrow> (Inl e, s')
              | (Inr (Some r), s') \<Rightarrow> (Inr r, s')
              | (Inr None, s') \<Rightarrow> (Inr (ok (''Created directory(s): '' @ join '', '' args)), s')))"

fun remove_directory_loop :: "string list \<Rightarrow> state \<Rightarrow> (exn + result option) \<times> state" where
  "remove_directory_loop [] s = (Inr None, s)"
| "remove_directory_loop (dirname # rest) s =
     (let p = resolve_path s dirname in
      if \<not> os_path_exists s p
        then (Inr (Some (fail (''Directory '' @ quoted p @ '' does not exist''))), s)
      else if \<not> os_path_isdir s p
        then (Inr (Some (fail (quoted p @ '' is not a directory''))), s)
      else (case os_listdir s p of
              Inl e \<Rightarrow> (Inl e, s)
            | Inr names \<Rightarrow>
                (if names \<noteq> [] then
                   (Inr (Some (fail (''Directory '' @ quoted p @
                      '' is not empty. Use '' @ quoted ''rm -r'' @ '' to remove non-empty directories''))), s)
                 else (case os_rmdir s p of
                         (Some e, s') \<Rightarrow> (Inl e, s')
                       | (None, s') \<Rightarrow> remove_directory_loop rest s'))))"

definition remove_directory :: "string list \<Rightarrow> state \<Rightarrow> result \<times> state" where
  "remove_directory args s =
     except_Exception
       (if args = [] then (Inr (fail ''rmdir: missing directory name''), s)
        else (case remove_directory_loop args s of
                (Inl e, s') \<Rightarrow> (Inl e, s')
              | (Inr (Some r), s') \<Rightarrow> (Inr r, s')
              | (Inr None, s') \<Rightarrow> (Inr (ok (''Removed directory(s): '' @ join '', '' args)), s')))"

fun remove_file_loop ::
  "bool \<Rightarrow> bool \<Rightarrow> string list \<Rightarrow> string list \<Rightarrow> state \<Rightarrow> (exn + result + string list) \<times> state" where
  \<comment> \<open>the loop over \<open>files\<close>; it ends with \<open>removed_items\<close>\<close>
  "remove_file_loop recursive force removed_items [] s = (Inr (Inr removed_items), s)"
| "remove_file_loop recursive force removed_items (filename # rest) s =
     (let p = resolve_path s filename in
      if \<not> os_path_exists s p \<and> \<not> force
        then (Inr (Inl (fail (''File/directory '' @ quoted p @ '' does not exist''))), s)
      else if os_path_isdir s p then
        (if recursive then
           (case shutil_rmtree s p of
              (Some e, s') \<Rightarrow> (Inl e, s')
            | (None, s') \<Rightarrow>
                remove_file_loop recursive force
                  (removed_items @ [''directory '' @ quoted filename @ '' and its contents'']) rest s')
         else (Inr (Inl (fail (quoted p @ '' is a directory. Use -r flag to remove directories''))), s))
      else
        (case os_remove s p of
           (Some e, s') \<Rightarrow> (Inl e, s')
         | (None, s') \<Rightarrow>
             remove_file_loop recursive force (removed_items @ [''file '' @ quoted filename]) rest s'))"

definition remove_file :: "string list \<Rightarrow> state \<Rightarrow> result \<times> state" where
  "remove_file args s =
     except_Exception
       (if args = [] then (Inr (fail ''rm: missing file/directory name''), s)
        else
          let recursive = (''-r'' \<in> set args \<or> ''-rf'' \<in> set args);
              force = (''-f'' \<in> set args \<or> ''-rf'' \<in> set args);
              files = filter (\<lambda>arg. \<not> startswith arg ''-'') args
          in if files = [] then (Inr (fail ''rm: missing file/directory name''), s)
             else (case remove_file_loop recursive force [] files s of
                     (Inl e, s') \<Rightarrow> (Inl e, s')
                   | (Inr (Inl r), s') \<Rightarrow> (Inr r, s')
                   | (Inr (Inr removed_items), s') \<Rightarrow>
                       (Inr (ok (''Removed: '' @ join '', '' removed_items)), s')))"

fun create_file_loop :: "host \<Rightarrow> string list \<Rightarrow> state \<Rightarrow> exn option \<times> state" where
  "create_file_loop h [] s = (None, s)"
| "create_file_loop h (filename # rest) s =
     (let p = resolve_path s filename in
      case path_touch h (proc_cwd s) (filesystem s) p of
        (Some e, t) \<Rightarrow> (Some e, s\<lparr>filesystem := t\<rparr>)
      | (None, t) \<Rightarrow> create_file_loop h rest (s\<lparr>filesystem := t\<rparr>))"

definition create_file :: "host \<Rightarrow> string list \<Rightarrow> state \<Rightarrow> result \<times> state" where
  "create_file h args s =
     except_Exception
       (if args = [] then (Inr (fail ''touch: missing filename''), s)
        else (case create_file_loop h args s of
                (Some e, s') \<Rightarrow> (Inl e, s')
              | (None, s') \<Rightarrow> (Inr (ok (''Created file(s): '' @ join '', '' args)), s')))"

definition show_file_content :: "host \<Rightarrow> string list \<Rightarrow> state \<Rightarrow> result \<times> state" where
  "show_file_content h args s =
     except_Exception
       (case args of
          [] \<Rightarrow> (Inr (fail ''cat: missing filename''), s)
        | filename # rest \<Rightarrow>
            (let p = resolve_path s filename in
             if \<not> os_path_exists s p then (Inr (fail (''File '' @ quoted p @ '' does not exist'')), s)
             else if os_path_isdir s p then (Inr (fail (quoted p @ '' is a directory'')), s)
             else (case os_open_read s p of
                     Inl e \<Rightarrow> (Inl e, s)
                   | Inr b \<Rightarrow> (Inr (ok (decode h b)), s))))"

subsection \<open>clear, help, ps, whoami, date, echo, top, exit\<close>

definition clear_screen :: "string list \<Rightarrow> state \<Rightarrow> result \<times> state" where
  "clear_screen args s = (ok ([CHR 0x1B] @ ''[2J'' @ [CHR 0x1B] @ ''[H''), s)"

definition help_text :: string where
  "help_text = join [CHR 0x0A]
     [[],
      ''Available Commands:'',
      ''=================='',
      ''File Operations:'',
      ''  ls, dir          - List directory contents'',
      ''  pwd             - Print working directory'',
      ''  cd <path>       - Change directory'',
      ''  mkdir <name>    - Create directory'',
      ''  rmdir <name>    - Remove empty directory'',
      ''  rm <file>       - Remove file (use -r for directories, -f to force)'',
      ''  touch <file>    - Create empty file'',
      ''  cat <file>      - Show file content'',
      ''  cp <src> <dst>  - Copy file'',
      ''  mv <src> <dst>  - Move/rename file'',
      [],
      ''System Commands:'',
      ''  ps              - Show running processes'',
      ''  top             - Show system information'',
      ''  whoami          - Show current user'',
      ''  date            - Show current date/time'',
      ''  clear, cls      - Clear screen'',
      [],
      ''Utilities:'',
      ''  echo <text>     - Print text'',
      ''  find <pattern>  - Find files matching pattern'',
      ''  grep <pattern>  - Search for text in files'',
      ''  help            - Show this help'',
      ''  exit, quit      - Exit terminal'',
      [],
      ''Examples:'',
      ''  ls -l           - List with details'',
      ''  cd ..           - Go to parent directory'',
      ''  mkdir test      - Create '' @ quoted ''test'' @ '' directory'',
      ''  rm -rf folder   - Remove folder and contents'',
      ''        '']"

definition show_help :: "string list \<Rightarrow> state \<Rightarrow> result \<times> state" where
  "show_help args s = (ok (strip help_text), s)"

definition show_processes :: "host \<Rightarrow> string list \<Rightarrow> state \<Rightarrow> result \<times> state" where
  "show_processes h args s =
     except_Exception
       (case process_lines h of
          Inl e \<Rightarrow> (Inl e, s)
        | Inr processes \<Rightarrow>
            (let header = ''   PID '' @ ''NAME'' @ replicate 26 CHR '' '' @ '' '' @ ''  CPU%'' in
             (Inr (ok (header @ [CHR 0x0A] @ replicate 50 CHR ''-'' @ [CHR 0x0A]
                       @ join [CHR 0x0A] (take 20 processes))), s)))"

definition whoami :: "host \<Rightarrow> string list \<Rightarrow> state \<Rightarrow> result \<times> state" where
  "whoami h args s =
     except_Exception
       (case getpass_getuser h of Inl e \<Rightarrow> (Inl e, s) | Inr user \<Rightarrow> (Inr (ok user), s))"

definition show_date :: "host \<Rightarrow> string list \<Rightarrow> state \<Rightarrow> result \<times> state" where
  "show_date h args s =
     except_Exception
       (case datetime_now h of Inl e \<Rightarrow> (Inl e, s) | Inr now \<Rightarrow> (Inr (ok now), s))"

definition echo :: "string list \<Rightarrow> state \<Rightarrow> result \<times> state" where
  "echo args s = (ok (join '' '' args), s)"

definition show_system_info :: "host \<Rightarrow> string list \<Rightarrow> state \<Rightarrow> result \<times> state" where
  "show_system_info h args s =
     except_Exception
       (case system_info h of Inl e \<Rightarrow> (Inl e, s) | Inr info \<Rightarrow> (Inr (ok info), s))"

definition exit :: "string list \<Rightarrow> state \<Rightarrow> result \<times> state" where
  "exit args s = (ok ''exit'', s)"

subsection \<open>cp, mv, find, grep\<close>

definition copy_file :: "host \<Rightarrow> string list \<Rightarrow> state \<Rightarrow> result \<times> state" where
  "copy_file h args s =
     except_Exception
       (case args of
          a0 # a1 # rest \<Rightarrow>
            (let src = resolve_path s a0;
                 dst = resolve_path s a1
             in if \<not> os_path_exists s src
                  then (Inr (fail (''Source '' @ quoted src @ '' does not exist'')), s)
                else (case (if os_path_isdir s src
                            then shutil_copytree h (proc_cwd s) (filesystem s) src dst
                            else shutil_copy2 h (proc_cwd s) (filesystem s) src dst) of
                        (Some e, t) \<Rightarrow> (Inl e, s\<lparr>filesystem := t\<rparr>)
                      | (None, t) \<Rightarrow>
                          (Inr (ok (''Copied '' @ quoted a0 @ '' to '' @ quoted a1)), s\<lparr>filesystem := t\<rparr>)))
        | _ \<Rightarrow> (Inr (fail ''cp: missing source or destination''), s))"

definition move_file :: "host \<Rightarrow> string list \<Rightarrow> state \<Rightarrow> result \<times> state" where
  "move_file h args s =
     except_Exception
       (case args of
          a0 # a1 # rest \<Rightarrow>
            (let src = resolve_path s a0;
                 dst = resolve_path s a1
             in if \<not> os_path_exists s src
                  then (Inr (fail (''Source '' @ quoted src @ '' does not exist'')), s)
                else (case shutil_move h (proc_cwd s) (filesystem s) src dst of
                        (Some e, t) \<Rightarrow> (Inl e, s\<lparr>filesystem := t\<rparr>)
                      | (None, t) \<Rightarrow>
                          (Inr (ok (''Moved '' @ quoted a0 @ '' to '' @ quoted a1)), s\<lparr>filesystem := t\<rparr>)))
        | _ \<Rightarrow> (Inr (fail ''mv: missing source or destination''), s))"

definition find_matches :: "string \<Rightarrow> (string \<times> string list \<times> string list) list \<Rightarrow> string list" where
  \<comment> \<open>the two nested loops of \<open>_find_files\<close>\<close>
  "find_matches pattern triples =
     concat (map (\<lambda>(root, dirs, files).
                    map (os_path_join root) (filter (\<lambda>file. contains (lower file) (lower pattern)) files))
                 triples)"

definition find_files :: "host \<Rightarrow> string list \<Rightarrow> state \<Rightarrow> result \<times> state" where
  "find_files h args s =
     except_Exception
       (case args of
          [] \<Rightarrow> (Inr (fail ''find: missing pattern''), s)
        | pattern # rest \<Rightarrow>
            (let search_path = (case rest of [] \<Rightarrow> current_directory s | a1 # rest' \<Rightarrow> a1);
                 search_path = resolve_path s search_path;
                 matches = find_matches pattern (os_walk h (proc_cwd s) (filesystem s) search_path)
             in if matches = [] then (Inr (ok ''No files found matching pattern''), s)
                else (Inr (ok (join [CHR 0x0A] matches)), s)))"

fun grep_lines :: "string \<Rightarrow> string \<Rightarrow> nat \<Rightarrow> string list \<Rightarrow> string list" where
  \<comment> \<open>\<open>for line_num, line in enumerate(f, 1)\<close>\<close>
  "grep_lines pattern filepath line_num [] = []"
| "grep_lines pattern filepath line_num (line # rest) =
     (if contains (lower line) (lower pattern)
      then (filepath @ '':'' @ str_nat line_num @ '':'' @ strip line)
             # grep_lines pattern filepath (Suc line_num) rest
      else grep_lines pattern filepath (Suc line_num) rest)"

definition grep_file :: "host \<Rightarrow> state \<Rightarrow> string \<Rightarrow> string \<Rightarrow> string list" where
  \<comment> \<open>one \<open>filepath\<close> of \<open>file_list\<close>; a file that cannot be opened is skipped\<close>
  "grep_file h s pattern filepath =
     (if os_path_isfile s filepath then
        (case os_open_read s filepath of
           Inl e \<Rightarrow> []
         | Inr b \<Rightarrow> grep_lines pattern filepath 1 (text_lines [] (decode h b)))
      else [])"

definition grep_pattern :: "host \<Rightarrow> state \<Rightarrow> string \<Rightarrow> string \<Rightarrow> string list" where
  \<comment> \<open>one \<open>file_pattern\<close> of \<open>files\<close>\<close>
  "grep_pattern h s pattern file_pattern =
     (let file_path = resolve_path s file_pattern;
          file_list =
            (if contains file_pattern ''*'' then glob_glob h (proc_cwd s) (filesystem s) file_path
             else if os_path_exists s file_path then [file_path] else [])
      in concat (map (grep_file h s pattern) file_list))"

definition grep_files :: "host \<Rightarrow> string list \<Rightarrow> state \<Rightarrow> result \<times> state" where
  "grep_files h args s =
     except_Exception
       (case args of
          [] \<Rightarrow> (Inr (fail ''grep: missing pattern''), s)
        | pattern # rest \<Rightarrow>
            (let files = (if rest \<noteq> [] then rest else [''*'']);
                 matches = concat (map (grep_pattern h s pattern) files)
             in if matches = [] then (Inr (ok ''No matches found''), s)
                else (Inr (ok (join [CHR 0x0A] matches)), s)))"

subsection \<open>The external command and the dispatch\<close>

definition execute_system_command :: "host \<Rightarrow> string \<Rightarrow> state \<Rightarrow> result \<times> state" where
  "execute_system_command h command_line s =
     (case subprocess_run h command_line (current_directory s) (proc_cwd s) (filesystem s) of
        (Inr r, t) \<Rightarrow>
          (\<lparr>success = (returncode r = 0), output = stdout r,
            error = (if stderr r \<noteq> [] then stderr r else [])\<rparr>, s\<lparr>filesystem := t\<rparr>)
      | (Inl e, t) \<Rightarrow>
          (if is_TimeoutExpired e then (fail ''Command timed out after 30 seconds'', s\<lparr>filesystem := t\<rparr>)
           else (fail (''Command not found: '' @ str_exn e), s\<lparr>filesystem := t\<rparr>)))"

definition returning :: "(string list \<Rightarrow> state \<Rightarrow> result \<times> state) \<Rightarrow> handler" where
  \<comment> \<open>a method that always returns, as an entry of the table of handlers\<close>
  "returning f = (\<lambda>args s. case f args s of (r, s') \<Rightarrow> (Inr r, s'))"

definition supported_commands :: "host \<Rightarrow> (string \<times> handler) list" where
  "supported_commands h =
     [(''ls'', returning (list_directory h)),
      (''dir'', returning (list_directory h)),
      (''pwd'', returning print_working_directory),
      (''cd'', returning (change_directory h)),
      (''mkdir'', returning (make_directory h)),
      (''rmdir'', returning remove_directory),
      (''rm'', returning remove_file),
      (''del'', returning remove_file),
      (''touch'', returning (create_file h)),
      (''cat'', returning (show_file_content h)),
      (''type'', returning (show_file_content h)),
      (''clear'', returning clear_screen),
      (''cls'', returning clear_screen),
      (''help'', returning show_help),
      (''ps'', returning (show_processes h)),
      (''whoami'', returning (whoami h)),
      (''date'', returning (show_date h)),
      (''echo'', returning echo),
      (''cp'', returning (copy_file h)),
      (''copy'', returning (copy_file h)),
      (''mv'', returning (move_file h)),
      (''move'', returning (move_file h)),
      (''find'', returning (find_files h)),
      (''grep'', returning (grep_files h)),
      (''top'', returning (show_system_info h)),
      (''exit'', returning exit),
      (''quit'', returning exit)]"

definition execute_command_try :: "(string \<rightharpoonup> handler) \<Rightarrow> host \<Rightarrow> state \<Rightarrow> string \<Rightarrow> (exn + result) \<times> state" where
  \<comment> \<open>the \<open>try\<close> block of \<open>execute_command\<close>, over a table of handlers\<close>
  "execute_command_try table h s command_line =
     (if strip command_line = [] then (Inr (ok []), s)
      else
        (case parse_command command_line of
           [] \<Rightarrow> (Inl (Exception ''list index out of range''), s)
         | p # args \<Rightarrow>
             (let command = lower p in
              case table command of
                Some f \<Rightarrow> f args s
              | None \<Rightarrow>
                  (case execute_system_command h command_line s of (r, s') \<Rightarrow> (Inr r, s')))))"

definition execute_command_with :: "(string \<rightharpoonup> handler) \<Rightarrow> host \<Rightarrow> state \<Rightarrow> string \<Rightarrow> result \<times> state" where
  \<comment> \<open>\<open>execute_command\<close> over a table of handlers\<close>
  "execute_command_with table h s command_line =
     (case execute_command_try table h s command_line of
        (Inr r, s') \<Rightarrow> (r, s')
      | (Inl e, s') \<Rightarrow> (fail (''Error executing command: '' @ str_exn e), s'))"

definition execute_command :: "host \<Rightarrow> state \<Rightarrow> string \<Rightarrow> result \<times> state" where
  "execute_command h s command_line =
     execute_command_with (map_of (supported_commands h)) h s command_line"

definition init :: "path \<Rightarrow> fs \<Rightarrow> exn + state" where
  \<comment> \<open>\<open>__init__\<close>: \<open>self.current_directory = os.getcwd()\<close>, in a process started in \<open>cwd\<close>\<close>
  "init cwd t =
     (let s = \<lparr>current_directory = [], proc_cwd = cwd, filesystem = t\<rparr> in
      case os_getcwd s of
        Inl e \<Rightarrow> Inl e
      | Inr d \<Rightarrow> Inr (s\<lparr>current_directory := d\<rparr>))"

fun run :: "host \<Rightarrow> state \<Rightarrow> string list \<Rightarrow> state" where
  \<comment> \<open>a session: the command lines executed one after the other\<close>
  "run h s [] = s"
| "run h s (command_line # rest) = run h (snd (execute_command h s command_line)) rest"

section \<open>An example host\<close>

text \<open>
  A host for the concrete examples: its library calls fail and change nothing, and its
  shell finds no command.
\<close>

definition example_host :: host where
  "example_host =
     \<lparr>platform_system = ''Linux'',
      expanduser = ''/home/user'',
      dir_size = 4096,
      os_makedirs = (\<lambda>cwd t p. (Some (Exception ''unsupported''), t)),
      path_touch = (\<lambda>cwd t p. (Some (Exception ''unsupported''), t)),
      decode = (\<lambda>b. b),
      shutil_copytree = (\<lambda>cwd t src dst. (Some (Exception ''unsupported''), t)),
      shutil_copy2 = (\<lambda>cwd t src dst. (Some (Exception ''unsupported''), t)),
      shutil_move = (\<lambda>cwd t src dst. (Some (Exception ''unsupported''), t)),
      os_walk = (\<lambda>cwd t p. []),
      glob_glob = (\<lambda>cwd t p. []),
      process_lines = Inl (Exception ''unsupported''),
      system_info = Inl (Exception ''unsupported''),
      getpass_getuser = Inr ''user'',
      datetime_now = Inr ''2024-01-01 00:00:00'',
      subprocess_run = (\<lambda>command_line cwd pc t.
        (Inr \<lparr>returncode = 127, stdout = [], stderr = ''/bin/sh: 1: '' @ command_line @ '': not found''\<rparr>, t))\<rparr>"

definition example_fs :: fs where
  \<comment> \<open>the directories \<open>/\<close>, \<open>/home\<close>, \<open>/home/user\<close>, \<open>/home/user/docs\<close> and \<open>/tmp\<close>, and the file
      \<open>/home/user/docs/notes.txt\<close>\<close>
  "example_fs =
     [([], Dir),
      ([''home''], Dir),
      ([''home'', ''user''], Dir),
      ([''home'', ''user'', ''docs''], Dir),
      ([''home'', ''user'', ''docs'', ''notes.txt''], File ''hello''),
      ([''tmp''], Dir)]"

definition example_state :: state where
  \<comment> \<open>a session started in \<open>/tmp\<close>\<close>
  "example_state = \<lparr>current_directory = ''/tmp'', proc_cwd = [''tmp''], filesystem = example_fs\<rparr>"

definition double_quote :: char where
  "double_quote = CHR 0x22"

section \<open>Lemmas on strings and on the dispatch\<close>

lemma dropWhile_all: "(\<forall>x \<in> set (dropWhile P s). P x) = (\<forall>x \<in> set s. P x)"
proof
  assume a: "\<forall>x \<in> set (dropWhile P s). P x"
  have "dropWhile P s = []"
  proof (rule ccontr)
    assume n: "dropWhile P s \<noteq> []"
    then have "\<not> P (hd (dropWhile P s))" by (rule hd_dropWhile)
    moreover have "hd (dropWhile P s) \<in> set (dropWhile P s)" using n by simp
    ultimately show False using a by blast
  qed
  then show "\<forall>x \<in> set s. P x" by (simp add: dropWhile_eq_Nil_conv)
next
  assume "\<forall>x \<in> set s. P x"
  then show "\<forall>x \<in> set (dropWhile P s). P x" by (auto dest: set_dropWhileD)
qed

lemma strip_eq_Nil: "(strip s = []) = (\<forall>c \<in> set s. isspace c)"
  by (simp add: strip_def dropWhile_eq_Nil_conv dropWhile_all)

lemma split_tokens:
  "x \<in> set (split w s) \<Longrightarrow> \<forall>c \<in> set w. \<not> isspace c \<Longrightarrow> x \<noteq> [] \<and> (\<forall>c \<in> set x. \<not> isspace c)"
proof (induction s arbitrary: w)
  case Nil
  then show ?case by (simp split: if_splits)
next
  case (Cons c cs)
  show ?case
  proof (cases "isspace c")
    case True
    then have "x \<in> set (split [] cs) \<or> (x = w \<and> w \<noteq> [])"
      using Cons.prems(1) by (auto split: if_splits)
    then show ?thesis
    proof
      assume "x \<in> set (split [] cs)"
      then show ?thesis using Cons.IH [of "[]"] by simp
    next
      assume "x = w \<and> w \<noteq> []"
      then show ?thesis using Cons.prems(2) by simp
    qed
  next
    case False
    then have "x \<in> set (split (w @ [c]) cs)" using Cons.prems(1) by simp
    moreover have "\<forall>d \<in> set (w @ [c]). \<not> isspace d" using Cons.prems(2) False by simp
    ultimately show ?thesis using Cons.IH [of "w @ [c]"] by blast
  qed
qed

lemma parse_command_tokens:
  "x \<in> set (parse_command l) \<Longrightarrow> x \<noteq> [] \<and> (\<forall>c \<in> set x. \<not> isspace c)"
  unfolding parse_command_def using split_tokens [of x "[]" "strip l"] by simp

lemma join_ends:
  "xs \<noteq> [] \<Longrightarrow> \<forall>x \<in> set xs. x \<noteq> [] \<Longrightarrow>
   join sep xs \<noteq> [] \<and> last (join sep xs) = last (last xs) \<and> hd (join sep xs) = hd (hd xs)"
proof (induction sep xs rule: join.induct)
  case (1 sep)
  then show ?case by simp
next
  case (2 sep x)
  then show ?case by simp
next
  case (3 sep x y ys)
  have x: "x \<noteq> []" using 3(3) by simp
  have "\<forall>z \<in> set (y # ys). z \<noteq> []" using 3(3) by simp
  then have ih: "join sep (y # ys) \<noteq> [] \<and> last (join sep (y # ys)) = last (last (y # ys))"
    using 3(1) by blast
  have "join sep (x # y # ys) = x @ sep @ join sep (y # ys)" by simp
  then show ?case using x ih by (simp del: join.simps)
qed

lemma parse_nonempty_strip: "parse_command l = p # args \<Longrightarrow> strip l \<noteq> []"
  by (auto simp: parse_command_def)

lemma exec_found:
  "parse_command l = p # args \<Longrightarrow> table (lower p) = Some f \<Longrightarrow>
   execute_command_with table h s l =
     (case f args s of (Inr r, s') \<Rightarrow> (r, s') | (Inl e, s') \<Rightarrow> (fail (''Error executing command: '' @ str_exn e), s'))"
  by (frule parse_nonempty_strip) (simp add: execute_command_with_def execute_command_try_def)

lemma exec_not_found:
  "parse_command l = p # args \<Longrightarrow> table (lower p) = None \<Longrightarrow>
   execute_command_with table h s l = execute_system_command h l s"
  by (frule parse_nonempty_strip) (simp add: execute_command_with_def execute_command_try_def split: prod.splits)

lemma exec_returning:
  "parse_command l = p # args \<Longrightarrow> table (lower p) = Some (returning f) \<Longrightarrow>
   execute_command_with table h s l = f args s"
  by (simp add: exec_found returning_def split: prod.splits)

section \<open>Properties of the command handler\<close>

text \<open>
  C5: for every input line that is empty or consists only of whitespace,
  \<open>execute_command\<close> returns \<open>{success: true, output: "", error: ""}\<close> and leaves the
  session state, the working directory of the process and the file system as they
  were. The result is the same for every table of handlers and every host, so no
  handler and no external process has a part in it.
\<close>

theorem whitespace_line_is_noop:
  assumes "\<forall>c \<in> set command_line. isspace c"
  shows "execute_command_with table h s command_line = (\<lparr>success = True, output = [], error = []\<rparr>, s)
       \<and> execute_command h s command_line = (\<lparr>success = True, output = [], error = []\<rparr>, s)"
  using assms
  by (simp add: execute_command_def execute_command_with_def execute_command_try_def strip_eq_Nil ok_def)

theorem whitespace_line_is_noop_witness:
  "execute_command example_host example_state [CHR '' '', CHR 0x09, CHR '' ''] =
     (\<lparr>success = True, output = [], error = []\<rparr>, example_state)"
  using whitespace_line_is_noop [of "[CHR '' '', CHR 0x09, CHR '' '']" Map.empty example_host example_state]
  by (simp add: isspace_def)

text \<open>
  C9: \<open>echo\<close> returns success with output equal to its arguments joined by single
  spaces, where the arguments are the whitespace-separated tokens of the line after the
  command name, taken as they are (the tokenizer removes no quote characters); the
  output is empty or begins and ends with a character that is not whitespace, so there
  is no trailing whitespace or newline, and the state is unchanged.
\<close>

theorem echo_joins_tokens:
  assumes "parse_command command_line = p # args" and "lower p = ''echo''"
  shows "execute_command h s command_line = (\<lparr>success = True, output = join '' '' args, error = []\<rparr>, s)
       \<and> (join '' '' args = [] \<or> (\<not> isspace (hd (join '' '' args)) \<and> \<not> isspace (last (join '' '' args))))"
proof
  have look: "map_of (supported_commands h) (lower p) = Some (returning echo)"
    using assms(2) by (simp add: supported_commands_def)
  show "execute_command h s command_line = (\<lparr>success = True, output = join '' '' args, error = []\<rparr>, s)"
    unfolding execute_command_def using exec_returning [where table = "map_of (supported_commands h)", OF assms(1) look]
    by (simp add: echo_def ok_def)
  show "join '' '' args = [] \<or> (\<not> isspace (hd (join '' '' args)) \<and> \<not> isspace (last (join '' '' args)))"
  proof (cases "args = []")
    case True
    then show ?thesis by simp
  next
    case False
    have tok: "x \<noteq> [] \<and> (\<forall>c \<in> set x. \<not> isspace c)" if "x \<in> set args" for x
    proof -
      from that have "x \<in> set (parse_command command_line)" using assms(1) by simp
      then show ?thesis by (rule parse_command_tokens)
    qed
    have ne: "\<forall>x \<in> set args. x \<noteq> []" using tok by blast
    have j: "join '' '' args \<noteq> [] \<and> last (join '' '' args) = last (last args)
             \<and> hd (join '' '' args) = hd (hd args)"
      using join_ends [OF False ne] .
    have la: "last args \<in> set args" using False by (rule last_in_set)
    have ha: "hd args \<in> set args" using False by (rule hd_in_set)
    have l1: "last args \<noteq> []" using tok [OF la] by blast
    have l2: "\<forall>c \<in> set (last args). \<not> isspace c" using tok [OF la] by blast
    have "last (last args) \<in> set (last args)" using l1 by (rule last_in_set)
    then have l: "\<not> isspace (last (last args))" using l2 by blast
    have h1: "hd args \<noteq> []" using tok [OF ha] by blast
    have h2: "\<forall>c \<in> set (hd args). \<not> isspace c" using tok [OF ha] by blast
    have "hd (hd args) \<in> set (hd args)" using h1 by (rule hd_in_set)
    then have h: "\<not> isspace (hd (hd args))" using h2 by blast
    show ?thesis using j l h by simp
  qed
qed

theorem echo_joins_tokens_witness:
  "execute_command example_host example_state ''echo a b'' =
       (\<lparr>success = True, output = ''a b'', error = []\<rparr>, example_state)"
proof -
  have 1: "parse_command ''echo a b'' = ''echo'' # [''a'', ''b'']" by code_simp
  have 2: "lower ''echo'' = ''echo''" by code_simp
  show ?thesis using echo_joins_tokens [OF 1 2, of example_host example_state] by simp
qed

text \<open>
  The line that is \<open>echo\<close> followed by \<open>a\<close> and \<open>b\<close>, each between double quotes,
  gives as output the two arguments with their four quote characters, which is not
  \<open>a b\<close>.
\<close>

theorem echo_keeps_quotes:
  "output (fst (execute_command example_host example_state
      (''echo '' @ [double_quote] @ ''a'' @ [double_quote] @ '' '' @ [double_quote] @ ''b'' @ [double_quote])))
    = [double_quote] @ ''a'' @ [double_quote] @ '' '' @ [double_quote] @ ''b'' @ [double_quote]
   \<and> output (fst (execute_command example_host example_state
      (''echo '' @ [double_quote] @ ''a'' @ [double_quote] @ '' '' @ [double_quote] @ ''b'' @ [double_quote])))
    \<noteq> ''a b''"
  by code_simp

text \<open>
  C8: when the lowercased first token of a non-empty line is not a key of the table of
  handlers, \<open>execute_command\<close> is \<open>_execute_system_command\<close> on the original
  command line, and the result has \<open>success = True\<close> exactly when \<open>subprocess.run\<close>
  returns a process whose return code is 0.
\<close>

theorem unknown_command_runs_shell:
  assumes "parse_command command_line = p # args"
      and "map_of (supported_commands h) (lower p) = None"
  shows "execute_command h s command_line = execute_system_command h command_line s
       \<and> (success (fst (execute_command h s command_line)) \<longleftrightarrow>
            (\<exists>r t. subprocess_run h command_line (current_directory s) (proc_cwd s) (filesystem s) = (Inr r, t)
                   \<and> returncode r = 0))"
proof -
  have e: "execute_command h s command_line = execute_system_command h command_line s"
    unfolding execute_command_def using exec_not_found [where table = "map_of (supported_commands h)", OF assms] .
  have "success (fst (execute_system_command h command_line s)) \<longleftrightarrow>
            (\<exists>r t. subprocess_run h command_line (current_directory s) (proc_cwd s) (filesystem s) = (Inr r, t)
                   \<and> returncode r = 0)"
  proof (cases "subprocess_run h command_line (current_directory s) (proc_cwd s) (filesystem s)")
    case (Pair x t)
    then show ?thesis
      by (cases x) (simp_all add: execute_system_command_def fail_def)
  qed
  with e show ?thesis by simp
qed

theorem unknown_command_runs_shell_witness:
  "execute_command example_host example_state ''make  all'' =
     (\<lparr>success = False, output = [], error = ''/bin/sh: 1: make  all: not found''\<rparr>, example_state)"
proof -
  have 1: "parse_command ''make  all'' = ''make'' # [''all'']" by code_simp
  have l: "lower ''make'' = ''make''" by code_simp
  have 2: "map_of (supported_commands example_host) (lower ''make'') = None"
    unfolding l by (simp add: supported_commands_def)
  have 3: "execute_system_command example_host ''make  all'' example_state =
     (\<lparr>success = False, output = [], error = ''/bin/sh: 1: make  all: not found''\<rparr>, example_state)"
    by (simp add: execute_system_command_def example_host_def example_state_def)
  show ?thesis using unknown_command_runs_shell [OF 1 2, of example_state] 3 by simp
qed

text \<open>
  C3: \<open>rm -f\<close> on a missing target. With \<open>-f\<close> the existence test is skipped, but
  \<open>os.remove\<close> is still called on the missing path and raises; the handler's
  \<open>except\<close> clause returns a failure with the text of the exception, and the targets
  that follow are not processed: the existing file \<open>/home/user/docs/notes.txt\<close> is
  still there, the file system being unchanged.
\<close>

theorem rm_force_missing_target_fails:
  "execute_command example_host example_state ''rm -f nosuch /home/user/docs/notes.txt'' =
     (\<lparr>success = False, output = [],
       error = ''[Errno 2] No such file or directory: '' @ quoted ''/tmp/nosuch''\<rparr>, example_state)"
  by code_simp

end
